theory Spec2Isabelle
  imports Main
begin

section \<open>Error values\<close>

text \<open>
  A Go \<^verbatim>\<open>error\<close> is either built in this package by \<^verbatim>\<open>fmt.Errorf(format, args...)\<close>,
  kept here as the format string with its arguments, or it is handed over by a library
  (\<^verbatim>\<open>io.EOF\<close>, an XML syntax error, a pool or socket error), kept as its message.
\<close>

datatype error = Errorf string "arg list" | External string
  and arg = ArgString string | ArgInt int | ArgError error

section \<open>The SOAP envelope (fakesoap.go, lines 35 to 48)\<close>

text \<open>
  \<^verbatim>\<open>soapHeader\<close> is a raw string literal that spans two source lines: the line feed
  (byte 0x0A) after the XML declaration belongs to the constant.
\<close>

definition soapHeader :: string where
  \<open>soapHeader =
     ''<?xml version="1.0" encoding="UTF-8"?>'' @ CHR 0x0A #
     ''<SOAP-ENV:Envelope xmlns:SOAP-ENV="http://schemas.xmlsoap.org/soap/envelope/" xmlns:SOAP-ENC="http://schemas.xmlsoap.org/soap/encoding/" xmlns:xsi="http://www.w3.org/2001/XMLSchema-instance" xmlns:xsd="http://www.w3.org/2001/XMLSchema" xmlns:xop="http://www.w3.org/2004/08/xop/include" xmlns:xmlmime="http://www.w3.org/2004/11/xmlmime" xmlns:ns="urn:zarafa"><SOAP-ENV:Body SOAP-ENV:encodingStyle="http://schemas.xmlsoap.org/soap/encoding/">''\<close>

definition soapFooter :: string where
  \<open>soapFooter = ''</SOAP-ENV:Body></SOAP-ENV:Envelope>''\<close>

text \<open>
  \<^verbatim>\<open>soapEnvelope\<close> writes header, payload and footer into a fresh buffer. The payload is
  the string the \<^verbatim>\<open>*string\<close> argument points to.
\<close>

definition soapEnvelope :: "string \<Rightarrow> string" where
  "soapEnvelope payload = soapHeader @ payload @ soapFooter"

text \<open>
  The header as the specification prints it (External Interfaces, envelope framing): the
  XML declaration is followed at once by the opening tag of the envelope.
\<close>

definition spec_soapHeader :: string where
  \<open>spec_soapHeader =
     ''<?xml version="1.0" encoding="UTF-8"?><SOAP-ENV:Envelope xmlns:SOAP-ENV="http://schemas.xmlsoap.org/soap/envelope/" xmlns:SOAP-ENC="http://schemas.xmlsoap.org/soap/encoding/" xmlns:xsi="http://www.w3.org/2001/XMLSchema-instance" xmlns:xsd="http://www.w3.org/2001/XMLSchema" xmlns:xop="http://www.w3.org/2004/08/xop/include" xmlns:xmlmime="http://www.w3.org/2004/11/xmlmime" xmlns:ns="urn:zarafa"><SOAP-ENV:Body SOAP-ENV:encodingStyle="http://schemas.xmlsoap.org/soap/encoding/">''\<close>

section \<open>Reading the response (fakesoap.go, lines 67 to 90)\<close>

text \<open>
  The token types of \<^verbatim>\<open>encoding/xml\<close>. A \<^verbatim>\<open>Name\<close> has a name space and a local part.
\<close>

record Name =
  Space :: string
  Local :: string

record Attr =
  Name :: Name
  Value :: string

datatype Token =
    is_StartElement: StartElement Name "Attr list"
  | EndElement Name
  | CharData string
  | Comment string
  | ProcInst string string
  | Directive string

text \<open>
  An \<^verbatim>\<open>xml.Decoder\<close> over a finite input, seen through its method \<^verbatim>\<open>Token\<close>: the tokens it
  still has to hand out, and the error it reports with a nil token once they are used up
  (\<^verbatim>\<open>io.EOF\<close> at the end of a well-formed input, a syntax error at the first malformed
  construct).
\<close>

datatype Decoder = Decoder (pending: "Token list") (final: error)

text \<open>The error value \<^verbatim>\<open>io.EOF\<close>.\<close>

definition EOF :: error where
  "EOF = External ''EOF''"

fun Decoder_Token :: "Decoder \<Rightarrow> (Token option \<times> error option) \<times> Decoder" where
  "Decoder_Token (Decoder [] e) = ((None, Some e), Decoder [] e)"
| "Decoder_Token (Decoder (t # ts) e) = ((Some t, None), Decoder ts e)"

text \<open>
  The scan of \<^verbatim>\<open>parseSOAPResponse\<close>. \<open>DecodeElement d v n a\<close> stands for the library call
  \<^verbatim>\<open>decoder.DecodeElement(v, &se)\<close> with \<open>se\<close> the start element of name \<open>n\<close> and
  attributes \<open>a\<close>, the decoder standing at \<open>d\<close>: it gives the error returned (if any) and
  the new content of the destination. The error of \<^verbatim>\<open>Token\<close> is dropped (\<^verbatim>\<open>t, _ :=\<close>), and
  a nil token ends the loop.
\<close>

function parseLoop ::
  "(Decoder \<Rightarrow> 'v \<Rightarrow> Name \<Rightarrow> Attr list \<Rightarrow> error option \<times> 'v) \<Rightarrow> bool \<Rightarrow> Decoder \<Rightarrow> 'v
     \<Rightarrow> error option \<times> 'v" where
  "parseLoop DecodeElement match decoder v =
     (case Decoder_Token decoder of
        ((None, _), _) \<Rightarrow> (Some (Errorf ''failed to unmarshal SOAP response body'' []), v)
      | ((Some t, _), decoder') \<Rightarrow>
          (case t of
             StartElement n a \<Rightarrow>
               if match then DecodeElement decoder' v n a
               else parseLoop DecodeElement (if Local n = ''Body'' then True else match) decoder' v
           | _ \<Rightarrow> parseLoop DecodeElement match decoder' v))"
  by pat_completeness auto
termination
proof -
  have shorter: "length (pending d') < length (pending d)"
    if "Decoder_Token d = ((Some t, b), d')" for d d' t b
    using that by (cases d; cases "pending d") auto
  show ?thesis
    by (relation "measure (\<lambda>(DecodeElement, match, decoder, v). length (pending decoder))")
      (auto dest: shorter [OF sym])
qed

declare parseLoop.simps [simp del]

text \<open>
  \<open>NewDecoder data\<close> stands for \<^verbatim>\<open>xml.NewDecoder(data)\<close>: the decoder the library sets up
  over the reader.
\<close>

definition parseSOAPResponse ::
  "('r \<Rightarrow> Decoder) \<Rightarrow> (Decoder \<Rightarrow> 'v \<Rightarrow> Name \<Rightarrow> Attr list \<Rightarrow> error option \<times> 'v) \<Rightarrow> 'r \<Rightarrow> 'v
     \<Rightarrow> error option \<times> 'v" where
  "parseSOAPResponse NewDecoder DecodeElement data v =
     parseLoop DecodeElement False (NewDecoder data) v"

section \<open>Clients (fakesoap.go, lines 92 to 146)\<close>

text \<open>
  The fields of \<^verbatim>\<open>url.URL\<close> and of \<^verbatim>\<open>net.Dialer\<close> that matter here; durations are
  integers (nanoseconds).
\<close>

record URL =
  Scheme :: string
  Opaque :: string
  Host :: string
  Path :: string
  RawPath :: string
  RawQuery :: string
  Fragment :: string

record Dialer =
  Timeout :: int

text \<open>
  The two clients. \<open>'hc\<close> is the type of \<^verbatim>\<open>*http.Client\<close> values, \<open>'pool\<close> the type of
  \<^verbatim>\<open>gncp.ConnPool\<close> values. \<^verbatim>\<open>SOAPClient\<close> is the interface both implement.
\<close>

record 'hc SOAPHTTPClient =
  Client :: 'hc
  URI :: string

record 'pool SOAPSocketClient =
  Dialer :: Dialer
  Pool :: 'pool
  Path :: string

datatype ('hc, 'pool) SOAPClient =
    HTTPClient "'hc SOAPHTTPClient"
  | SocketClient "'pool SOAPSocketClient"

text \<open>
  The method value \<^verbatim>\<open>c.connect\<close> handed to the pool: it dials the network \<^verbatim>\<open>unix\<close> at the
  client's path with the client's dialer (line 234).
\<close>

datatype connect = Connect Dialer string string

text \<open>A call either returns or panics (a nil pointer is dereferenced).\<close>

datatype 'a outcome = Panics string | Returns 'a

text \<open>
  What \<open>NewSOAPClient\<close> calls outside this package: \<^verbatim>\<open>url.Parse\<close>, the path that
  \<^verbatim>\<open>ResolveReference\<close> sets on an absolute reference (\<^verbatim>\<open>Path\<close> and \<^verbatim>\<open>RawPath\<close> after
  \<^verbatim>\<open>setPath(resolvePath(ref.EscapedPath(), ""))\<close>), \<^verbatim>\<open>(*URL).String\<close> and \<^verbatim>\<open>gncp.NewPool\<close>
  with its initial size, its capacity and its dial function. They are parameters: the
  properties below hold whatever these functions compute.
\<close>

record 'pool net =
  url_Parse :: "string \<Rightarrow> error + URL"
  url_resolvePath :: "URL \<Rightarrow> string \<times> string"
  url_String :: "URL \<Rightarrow> string"
  gncp_NewPool :: "int \<Rightarrow> int \<Rightarrow> connect \<Rightarrow> error + 'pool"

text \<open>
  The package-level names \<open>NewSOAPClient\<close> reads. They are declared in another file of
  the package, so their values are parameters too.
\<close>

record 'hc globals =
  DefaultURI :: string
  DefaultHTTPClient :: 'hc
  DefaultUnixDialer :: Dialer
  DefaultUnixMaxConnections :: int

text \<open>
  Line 116 calls the method \<^verbatim>\<open>Parse\<close> on \<open>uri\<close>, which is nil there. The method of
  \<^verbatim>\<open>net/url\<close> parses the reference and, when that succeeds, returns
  \<^verbatim>\<open>u.ResolveReference(refurl)\<close>. \<^verbatim>\<open>ResolveReference\<close> copies the reference; when the reference
  has no scheme its first step reads \<^verbatim>\<open>u.Scheme\<close>, and \<open>u\<close> is the nil receiver; when the
  reference has a scheme the receiver is never read, the path of the copy is set anew and
  the copy is returned.
\<close>

definition nil_ResolveReference :: "('pool, 'z) net_scheme \<Rightarrow> URL \<Rightarrow> URL outcome" where
  "nil_ResolveReference L ref =
     (if Scheme ref = []
      then Panics ''runtime error: invalid memory address or nil pointer dereference''
      else Returns (ref\<lparr>URL.Path := fst (url_resolvePath L ref),
                         RawPath := snd (url_resolvePath L ref)\<rparr>))"

definition nil_Parse :: "('pool, 'z) net_scheme \<Rightarrow> string \<Rightarrow> (error + URL) outcome" where
  "nil_Parse L ref =
     (case url_Parse L ref of
        Inl err \<Rightarrow> Returns (Inl err)
      | Inr refurl \<Rightarrow>
          (case nil_ResolveReference L refurl of
             Panics m \<Rightarrow> Panics m
           | Returns u \<Rightarrow> Returns (Inr u)))"

text \<open>
  \<open>NewSOAPClient\<close> returns a client and an error, one of them nil. The argument is
  \<open>None\<close> for a nil \<^verbatim>\<open>*url.URL\<close>.
\<close>

definition NewSOAPClient ::
  "('pool, 'z) net_scheme \<Rightarrow> ('hc, 'y) globals_scheme \<Rightarrow> URL option \<Rightarrow>
   (('hc, 'pool) SOAPClient option \<times> error option) outcome" where
  "NewSOAPClient L G uri0 =
     (case (case uri0 of None \<Rightarrow> nil_Parse L (DefaultURI G) | Some u \<Rightarrow> Returns (Inr u)) of
        Panics m \<Rightarrow> Panics m
      | Returns (Inl err) \<Rightarrow> Returns (None, Some err)
      | Returns (Inr uri) \<Rightarrow>
          (if Scheme uri = ''https'' \<or> Scheme uri = ''http'' then
             Returns (Some (HTTPClient \<lparr>Client = DefaultHTTPClient G, URI = url_String L uri\<rparr>), None)
           else if Scheme uri = ''file'' then
             (case gncp_NewPool L 0 (DefaultUnixMaxConnections G)
                     (Connect (DefaultUnixDialer G) ''unix'' (URL.Path uri)) of
                Inl err \<Rightarrow> Returns (None, Some err)
              | Inr pool \<Rightarrow>
                  Returns (Some (SocketClient \<lparr>Dialer = DefaultUnixDialer G, Pool = pool,
                                                Path = URL.Path uri\<rparr>), None))
           else
             Returns (None, Some (Errorf ''invalid scheme '%v' for SOAP client''
                                    [ArgString (Scheme uri)]))))"

section \<open>The request over the socket (fakesoap.go, lines 180 to 231)\<close>

text \<open>
  An HTTP response as \<^verbatim>\<open>http.ReadResponse\<close> returns it: status code, header, body.
  \<open>Header_Get\<close> is \<^verbatim>\<open>Header.Get\<close>: the first value stored under the key, the empty string
  when there is none (the key the code asks for, \<^verbatim>\<open>Connection\<close>, is in canonical form
  already).
\<close>

record 'r Response =
  StatusCode :: int
  Header :: "string \<rightharpoonup> string list"
  Body :: 'r

definition Header_Get :: "(string \<rightharpoonup> string list) \<Rightarrow> string \<Rightarrow> string" where
  "Header_Get h key = (case h key of None \<Rightarrow> [] | Some [] \<Rightarrow> [] | Some (x # xs) \<Rightarrow> x)"

text \<open>
  What the pool and the socket do in one turn of the loop: the pool gives no connection
  in time; or it gives the connection \<open>c\<close> and writing the envelope to it fails; or the
  write succeeds and reading the response fails; or a response is read.
\<close>

datatype ('c, 'r) attempt =
    GetFailed error
  | WriteFailed 'c error
  | ReadFailed 'c error
  | Responded 'c "'r Response"

text \<open>
  The calls \<open>DoRequest\<close> makes on the pool, the connection and the response body, in the
  order it makes them. \<open>Conn_Close c\<close> is \<^verbatim>\<open>c.Close()\<close>, which hands the connection back to
  the pool (line 218); \<open>Pool_Remove c\<close> is \<^verbatim>\<open>sc.Pool.Remove(c)\<close>. A deadline is kept as its
  distance from the time of the call.
\<close>

datatype 'c call =
    Pool_GetWithTimeout int
  | SetWriteDeadline 'c int
  | WriteTo 'c string
  | Pool_Remove 'c
  | SetReadDeadline 'c int
  | ReadResponse 'c
  | Body_Close 'c
  | Conn_Close 'c

text \<open>
  The loop of \<open>DoRequest\<close>, at its turn \<open>i\<close>, with the calls made so far. \<open>world i\<close> is
  what pool and socket do in turn \<open>i\<close>. The loop has no exit but its \<^verbatim>\<open>return\<close>
  statements, so the function is partial: \<open>None\<close> means that the call never returns. A
  result is the error returned, the destination and the calls made. The deferred function
  runs after the returned value is computed. The context argument is not used by the
  code.
\<close>

partial_function (option) DoRequest_loop ::
  "('r \<Rightarrow> Decoder) \<Rightarrow> (Decoder \<Rightarrow> 'v \<Rightarrow> Name \<Rightarrow> Attr list \<Rightarrow> error option \<times> 'v) \<Rightarrow>
   'pool SOAPSocketClient \<Rightarrow> (nat \<Rightarrow> ('c, 'r) attempt) \<Rightarrow> string \<Rightarrow> 'v \<Rightarrow> nat \<Rightarrow> 'c call list \<Rightarrow>
   (error option \<times> 'v \<times> 'c call list) option" where
  "DoRequest_loop NewDecoder DecodeElement sc world payload v i calls =
     (case world i of
        GetFailed err \<Rightarrow>
          Some (Some (Errorf ''failed to open unix socket: %v'' [ArgError err]), v,
                calls @ [Pool_GetWithTimeout (Timeout (Dialer sc))])
      | WriteFailed c err \<Rightarrow>
          DoRequest_loop NewDecoder DecodeElement sc world payload v (Suc i)
            (calls @ [Pool_GetWithTimeout (Timeout (Dialer sc)),
                      SetWriteDeadline c (Timeout (Dialer sc)),
                      WriteTo c (soapEnvelope payload),
                      Pool_Remove c])
      | ReadFailed c err \<Rightarrow>
          Some (Some (Errorf ''failed to read from unix socket: %v'' [ArgError err]), v,
                calls @ [Pool_GetWithTimeout (Timeout (Dialer sc)),
                         SetWriteDeadline c (Timeout (Dialer sc)),
                         WriteTo c (soapEnvelope payload),
                         SetReadDeadline c (Timeout (Dialer sc)),
                         ReadResponse c,
                         Pool_Remove c])
      | Responded c resp \<Rightarrow>
          (let canReuseConnection = (Header_Get (Header resp) ''Connection'' = ''keep-alive'');
               deferred = [Body_Close c, if canReuseConnection then Conn_Close c else Pool_Remove c];
               (err, v') =
                 (if StatusCode resp \<noteq> 200
                  then (Some (Errorf ''unexpected http response status: %v'' [ArgInt (StatusCode resp)]), v)
                  else parseSOAPResponse NewDecoder DecodeElement (Body resp) v)
           in Some (err, v',
                calls @ [Pool_GetWithTimeout (Timeout (Dialer sc)),
                         SetWriteDeadline c (Timeout (Dialer sc)),
                         WriteTo c (soapEnvelope payload),
                         SetReadDeadline c (Timeout (Dialer sc)),
                         ReadResponse c] @ deferred)))"

definition DoRequest ::
  "('r \<Rightarrow> Decoder) \<Rightarrow> (Decoder \<Rightarrow> 'v \<Rightarrow> Name \<Rightarrow> Attr list \<Rightarrow> error option \<times> 'v) \<Rightarrow>
   'pool SOAPSocketClient \<Rightarrow> (nat \<Rightarrow> ('c, 'r) attempt) \<Rightarrow> string \<Rightarrow> 'v \<Rightarrow>
   (error option \<times> 'v \<times> 'c call list) option" where
  "DoRequest NewDecoder DecodeElement sc world payload v =
     DoRequest_loop NewDecoder DecodeElement sc world payload v 0 []"

section \<open>The connection pool\<close>

text \<open>
  Modelled from the spec: the connection pool (sections 3, 4.5 and 5, ConnectionPool). The
  code of the pool is the library \<^verbatim>\<open>gncp\<close>; \<^verbatim>\<open>fakesoap.go\<close> only creates the pool and
  calls it. A pool has a capacity, its idle connections and its acquired connections, each
  with the task that holds it. Connections and tasks are numbers.
\<close>

record ConnectionPool =
  capacity :: nat
  idle :: "nat list"
  acquired :: "(nat \<times> nat) list"

text \<open>
  Modelled from the spec: a new pool of initial size 0, as \<open>NewSOAPClient\<close> asks for it
  ("initial size (may be 0, meaning connections are created lazily), a maximum capacity").
\<close>

definition pool_new :: "nat \<Rightarrow> ConnectionPool" where
  "pool_new N = \<lparr>capacity = N, idle = [], acquired = []\<rparr>"

text \<open>
  Modelled from the spec: acquire ("blocks until either an idle connection is available, a
  new one can be created under capacity, or the timeout elapses"). \<open>dial\<close> is what the
  dial function gives when it is invoked, \<open>None\<close> when it fails. The result is the
  connection handed to the task, \<open>None\<close> while the task waits or when it times out, and
  the pool after the call.
\<close>

definition pool_acquire ::
  "ConnectionPool \<Rightarrow> nat \<Rightarrow> nat option \<Rightarrow> nat option \<times> ConnectionPool" where
  "pool_acquire p task dial =
     (case idle p of
        c # cs \<Rightarrow> (Some c, p\<lparr>idle := cs, acquired := (c, task) # acquired p\<rparr>)
      | [] \<Rightarrow>
          if length (idle p) + length (acquired p) < capacity p
          then (case dial of
                  Some c \<Rightarrow> (Some c, p\<lparr>acquired := (c, task) # acquired p\<rparr>)
                | None \<Rightarrow> (None, p))
          else (None, p))"

text \<open>
  Modelled from the spec: release ("returns a connection to the idle set"), by the task
  that holds the connection ("exclusively owned by the task that acquired it until
  released or removed").
\<close>

definition pool_release :: "ConnectionPool \<Rightarrow> nat \<Rightarrow> nat \<Rightarrow> ConnectionPool" where
  "pool_release p task c =
     (if (c, task) \<in> set (acquired p)
      then p\<lparr>acquired := remove1 (c, task) (acquired p), idle := idle p @ [c]\<rparr>
      else p)"

text \<open>
  Modelled from the spec: remove ("closes the connection and permanently removes it from
  pool accounting, decrementing the in-use count so capacity is freed for future dials"),
  by the task that holds the connection.
\<close>

definition pool_remove :: "ConnectionPool \<Rightarrow> nat \<Rightarrow> nat \<Rightarrow> ConnectionPool" where
  "pool_remove p task c =
     (if (c, task) \<in> set (acquired p)
      then p\<lparr>acquired := remove1 (c, task) (acquired p)\<rparr>
      else p)"

text \<open>
  Modelled from the spec: concurrent use ("all mutation (acquire/release/remove) must be
  internally synchronized"). The calls of all tasks take effect one at a time; an
  interleaving is the list of the calls in the order in which the pool serves them.
\<close>

datatype pool_call = Acquire nat "nat option" | Release nat nat | Remove nat nat

text \<open>
  Modelled from the spec: the effect of one call on the pool, by the three operations
  above.
\<close>

fun pool_step :: "ConnectionPool \<Rightarrow> pool_call \<Rightarrow> ConnectionPool" where
  "pool_step p (Acquire task dial) = snd (pool_acquire p task dial)"
| "pool_step p (Release task c) = pool_release p task c"
| "pool_step p (Remove task c) = pool_remove p task c"

section \<open>Sample values\<close>

text \<open>
  A stand-in for the libraries and the package variables, used where a property is shown
  at a concrete input: the parse knows bare absolute paths only, the pool is a capacity
  with its idle connections, made as \<^verbatim>\<open>gncp.NewPool\<close> makes it for an initial size of 0.
\<close>

definition sample_net :: "(int \<times> nat list) net" where
  "sample_net =
     \<lparr>url_Parse = (\<lambda>s. case s of
          CHR ''/'' # _ \<Rightarrow> Inr \<lparr>Scheme = [], Opaque = [], Host = [], URL.Path = s,
                                  RawPath = [], RawQuery = [], Fragment = []\<rparr>
        | _ \<Rightarrow> Inl (External ''parse: not a bare path'')),
      url_resolvePath = (\<lambda>u. (URL.Path u, RawPath u)),
      url_String = (\<lambda>u. Scheme u @ ''://'' @ Host u @ URL.Path u),
      gncp_NewPool = (\<lambda>minConn maxConn factory.
        if minConn > maxConn \<or> minConn < 0 \<or> maxConn \<le> 0
        then Inl (External ''Number of connection bound error.'')
        else Inr (maxConn, []))\<rparr>"

definition sample_globals :: "string globals" where
  "sample_globals =
     \<lparr>DefaultURI = ''http://127.0.0.1:236'', DefaultHTTPClient = ''DefaultHTTPClient'',
      DefaultUnixDialer = \<lparr>Timeout = 30000000000\<rparr>, DefaultUnixMaxConnections = 20\<rparr>"


definition sample_client :: "unit SOAPSocketClient" where
  "sample_client =
     \<lparr>Dialer = \<lparr>Timeout = 30000000000\<rparr>, Pool = (), Path = ''/run/kopano/server.sock''\<rparr>"

section \<open>Properties of the envelope\<close>

lemma soapHeader_length: "length soapHeader = 479"
  by (simp add: soapHeader_def)

text \<open>
  C2, as the specification states it, fails: the header of the code is not the header the
  specification prints, so already the envelope of the empty payload differs from
  specification header, payload, footer.
\<close>

theorem soapEnvelope_spec_header_counterexample:
  "soapEnvelope [] \<noteq> spec_soapHeader @ [] @ soapFooter"
  by (simp add: soapEnvelope_def soapHeader_def spec_soapHeader_def)

text \<open>
  C2 (amended): for every payload, \<open>soapEnvelope\<close> returns the header, the payload and the
  footer \<^verbatim>\<open></SOAP-ENV:Body></SOAP-ENV:Envelope>\<close> in this order and nothing else, where the
  header is the header of the specification with one line feed (byte 0x0A) between the
  XML declaration (its first 38 bytes) and \<^verbatim>\<open><SOAP-ENV:Envelope\<close>. The result is a function
  of the payload alone.
\<close>

theorem soapEnvelope_framing:
  "soapEnvelope payload =
     take 38 spec_soapHeader @ CHR 0x0A # drop 38 spec_soapHeader @ payload @ soapFooter"
  by (simp add: soapEnvelope_def soapHeader_def spec_soapHeader_def)

section \<open>Properties of the scan for the body\<close>

lemma parseLoop_Nil:
  "parseLoop DE m (Decoder [] e) v =
     (Some (Errorf ''failed to unmarshal SOAP response body'' []), v)"
  by (subst parseLoop.simps) simp

lemma parseLoop_Cons:
  "parseLoop DE m (Decoder (t # ts) e) v =
     (case t of
        StartElement n a \<Rightarrow>
          if m then DE (Decoder ts e) v n a
          else parseLoop DE (if Local n = ''Body'' then True else m) (Decoder ts e) v
      | _ \<Rightarrow> parseLoop DE m (Decoder ts e) v)"
  by (subst parseLoop.simps) simp

text \<open>Tokens that are no start elements are passed over, whatever the flag.\<close>

lemma parseLoop_skip:
  "\<forall>t \<in> set pre. \<not> is_StartElement t \<Longrightarrow>
   parseLoop DE m (Decoder (pre @ ts) e) v = parseLoop DE m (Decoder ts e) v"
proof (induction pre)
  case Nil
  show ?case by simp
next
  case (Cons t pre)
  then show ?case by (cases t) (simp_all add: parseLoop_Cons)
qed

text \<open>Before the flag is set, start elements of another local name are passed over too.\<close>

lemma parseLoop_skip_unmatched:
  "\<forall>n a. StartElement n a \<in> set pre \<longrightarrow> Local n \<noteq> ''Body'' \<Longrightarrow>
   parseLoop DE False (Decoder (pre @ ts) e) v = parseLoop DE False (Decoder ts e) v"
proof (induction pre)
  case Nil
  show ?case by simp
next
  case (Cons t pre)
  then show ?case by (cases t) (auto simp add: parseLoop_Cons)
qed

lemma parseLoop_no_start:
  "\<forall>t \<in> set ts. \<not> is_StartElement t \<Longrightarrow>
   parseLoop DE m (Decoder ts e) v =
     (Some (Errorf ''failed to unmarshal SOAP response body'' []), v)"
  using parseLoop_skip [of ts DE m "[]" e v] by (simp add: parseLoop_Nil)

lemma parseLoop_no_Body:
  "\<forall>n a. StartElement n a \<in> set ts \<longrightarrow> Local n \<noteq> ''Body'' \<Longrightarrow>
   parseLoop DE False (Decoder ts e) v =
     (Some (Errorf ''failed to unmarshal SOAP response body'' []), v)"
  using parseLoop_skip_unmatched [of ts DE "[]" e v] by (simp add: parseLoop_Nil)


text \<open>
  C3: when the decoder hands out no start element with local name \<open>Body\<close> before its nil
  token, or no start element after the first such one, \<open>parseSOAPResponse\<close> returns the
  error \<^verbatim>\<open>failed to unmarshal SOAP response body\<close> (the failure the specification calls
  "no matching body content"), and the destination is as it was: \<open>DecodeElement\<close> is not
  run, whatever it would do.
\<close>

theorem parseSOAPResponse_missing_body:
  assumes "pending (NewDecoder data) = ts"
    and "(\<forall>n a. StartElement n a \<in> set ts \<longrightarrow> Local n \<noteq> ''Body'') \<or>
         (\<exists>pre b ba post. ts = pre @ StartElement b ba # post \<and>
            (\<forall>n a. StartElement n a \<in> set pre \<longrightarrow> Local n \<noteq> ''Body'') \<and>
            Local b = ''Body'' \<and> (\<forall>t \<in> set post. \<not> is_StartElement t))"
  shows "parseSOAPResponse NewDecoder DecodeElement data v =
           (Some (Errorf ''failed to unmarshal SOAP response body'' []), v)"
proof -
  obtain e where d: "NewDecoder data = Decoder ts e"
    using assms(1) by (cases "NewDecoder data") simp
  from assms(2) show ?thesis
  proof
    assume "\<forall>n a. StartElement n a \<in> set ts \<longrightarrow> Local n \<noteq> ''Body''"
    then show ?thesis
      by (simp add: parseSOAPResponse_def d parseLoop_no_Body)
  next
    assume "\<exists>pre b ba post. ts = pre @ StartElement b ba # post \<and>
            (\<forall>n a. StartElement n a \<in> set pre \<longrightarrow> Local n \<noteq> ''Body'') \<and>
            Local b = ''Body'' \<and> (\<forall>t \<in> set post. \<not> is_StartElement t)"
    then obtain pre b ba post where ts: "ts = pre @ StartElement b ba # post"
      and pre: "\<forall>n a. StartElement n a \<in> set pre \<longrightarrow> Local n \<noteq> ''Body''"
      and b: "Local b = ''Body''"
      and post: "\<forall>t \<in> set post. \<not> is_StartElement t"
      by blast
    have "parseLoop DecodeElement False (Decoder ts e) v =
            parseLoop DecodeElement False (Decoder (StartElement b ba # post) e) v"
      unfolding ts using pre by (rule parseLoop_skip_unmatched)
    also have "\<dots> = parseLoop DecodeElement True (Decoder post e) v"
      by (simp add: parseLoop_Cons b)
    also have "\<dots> = (Some (Errorf ''failed to unmarshal SOAP response body'' []), v)"
      using post by (rule parseLoop_no_start)
    finally show ?thesis
      by (simp add: parseSOAPResponse_def d)
  qed
qed

theorem parseSOAPResponse_missing_body_witness:
  "parseSOAPResponse
     (\<lambda>data. Decoder [StartElement \<lparr>Space = [], Local = ''Envelope''\<rparr> [], CharData ''42'',
        EndElement \<lparr>Space = [], Local = ''Envelope''\<rparr>] EOF)
     (\<lambda>d v n a. (None, ''decoded'')) ''<Envelope>42</Envelope>'' ''untouched'' =
     (Some (Errorf ''failed to unmarshal SOAP response body'' []), ''untouched'') \<and>
   parseSOAPResponse
     (\<lambda>data. Decoder [StartElement \<lparr>Space = [], Local = ''Envelope''\<rparr> [],
        StartElement \<lparr>Space = [], Local = ''Body''\<rparr> [], CharData ''42''] (External ''XML syntax error on line 1: unexpected EOF''))
     (\<lambda>d v n a. (None, ''decoded'')) ''<Envelope><Body>42'' ''untouched'' =
     (Some (Errorf ''failed to unmarshal SOAP response body'' []), ''untouched'')"
proof
  show "parseSOAPResponse
     (\<lambda>data. Decoder [StartElement \<lparr>Space = [], Local = ''Envelope''\<rparr> [], CharData ''42'',
        EndElement \<lparr>Space = [], Local = ''Envelope''\<rparr>] EOF)
     (\<lambda>d v n a. (None, ''decoded'')) ''<Envelope>42</Envelope>'' ''untouched'' =
     (Some (Errorf ''failed to unmarshal SOAP response body'' []), ''untouched'')"
    by (rule parseSOAPResponse_missing_body [OF refl]) auto
next
  have split: "[StartElement \<lparr>Space = [], Local = ''Envelope''\<rparr> [],
        StartElement \<lparr>Space = [], Local = ''Body''\<rparr> [], CharData ''42''] =
      [StartElement \<lparr>Space = [], Local = ''Envelope''\<rparr> []] @
        StartElement \<lparr>Space = [], Local = ''Body''\<rparr> [] # [CharData ''42'']"
    by simp
  show "parseSOAPResponse
     (\<lambda>data. Decoder [StartElement \<lparr>Space = [], Local = ''Envelope''\<rparr> [],
        StartElement \<lparr>Space = [], Local = ''Body''\<rparr> [], CharData ''42''] (External ''XML syntax error on line 1: unexpected EOF''))
     (\<lambda>d v n a. (None, ''decoded'')) ''<Envelope><Body>42'' ''untouched'' =
     (Some (Errorf ''failed to unmarshal SOAP response body'' []), ''untouched'')"
    apply (rule parseSOAPResponse_missing_body [OF refl])
    apply (rule disjI2)
    apply (simp only: Decoder.sel)
    apply (subst split)
    apply (intro exI conjI)
       apply (rule refl)
      apply simp_all
    done
qed





section \<open>Properties of the client factory\<close>



text \<open>
  With a nil URI the default URI is parsed. When the parse fails, its error is returned
  and there is no client; when the parse gives a URI with a scheme, that URI (its path
  set anew by the library) goes through the dispatch on the scheme.
\<close>

lemma NewSOAPClient_nil_parse_error:
  "url_Parse L (DefaultURI G) = Inl err \<Longrightarrow> NewSOAPClient L G None = Returns (None, Some err)"
  by (simp add: NewSOAPClient_def nil_Parse_def)

lemma NewSOAPClient_nil_with_scheme:
  "url_Parse L (DefaultURI G) = Inr ref \<Longrightarrow> Scheme ref \<noteq> [] \<Longrightarrow>
   NewSOAPClient L G None =
     NewSOAPClient L G (Some (ref\<lparr>URL.Path := fst (url_resolvePath L ref),
                                  RawPath := snd (url_resolvePath L ref)\<rparr>))"
  by (simp add: NewSOAPClient_def nil_Parse_def nil_ResolveReference_def)

text \<open>
  C5 does not hold for every default URI: when the default URI parses to a reference
  without a scheme (a bare path, say), the call of \<^verbatim>\<open>Parse\<close> on the nil URI dereferences
  the nil receiver, and \<open>NewSOAPClient\<close> panics where the claim promises an error value.
\<close>

theorem NewSOAPClient_nil_default_without_scheme_panics:
  "url_Parse L (DefaultURI G) = Inr ref \<Longrightarrow> Scheme ref = [] \<Longrightarrow>
   NewSOAPClient L G None =
     Panics ''runtime error: invalid memory address or nil pointer dereference''"
  by (simp add: NewSOAPClient_def nil_Parse_def nil_ResolveReference_def)

theorem NewSOAPClient_nil_default_without_scheme_panics_witness:
  "NewSOAPClient sample_net (sample_globals\<lparr>DefaultURI := ''/run/kopano/server.sock''\<rparr>) None =
     (Panics ''runtime error: invalid memory address or nil pointer dereference''
        :: ((string, int \<times> nat list) SOAPClient option \<times> error option) outcome)"
proof (rule NewSOAPClient_nil_default_without_scheme_panics)
  show "url_Parse sample_net (DefaultURI (sample_globals\<lparr>DefaultURI := ''/run/kopano/server.sock''\<rparr>)) =
      Inr \<lparr>Scheme = [], Opaque = [], Host = [], URL.Path = ''/run/kopano/server.sock'',
           RawPath = [], RawQuery = [], Fragment = []\<rparr>"
    by (simp add: sample_net_def)
  show "Scheme \<lparr>Scheme = [], Opaque = [], Host = [], URL.Path = ''/run/kopano/server.sock'',
           RawPath = [], RawQuery = [], Fragment = []\<rparr> = []"
    by simp
qed

section \<open>Properties of the request over the socket\<close>

lemma DoRequest_loop_GetFailed:
  "world i = GetFailed err \<Longrightarrow>
   DoRequest_loop ND DE sc world payload v i calls =
     Some (Some (Errorf ''failed to open unix socket: %v'' [ArgError err]), v,
           calls @ [Pool_GetWithTimeout (Timeout (Dialer sc))])"
  by (subst DoRequest_loop.simps) simp

lemma DoRequest_loop_WriteFailed:
  "world i = WriteFailed c err \<Longrightarrow>
   DoRequest_loop ND DE sc world payload v i calls =
     DoRequest_loop ND DE sc world payload v (Suc i)
       (calls @ [Pool_GetWithTimeout (Timeout (Dialer sc)),
                 SetWriteDeadline c (Timeout (Dialer sc)),
                 WriteTo c (soapEnvelope payload),
                 Pool_Remove c])"
  by (subst DoRequest_loop.simps) simp

lemma DoRequest_loop_ReadFailed:
  "world i = ReadFailed c err \<Longrightarrow>
   DoRequest_loop ND DE sc world payload v i calls =
     Some (Some (Errorf ''failed to read from unix socket: %v'' [ArgError err]), v,
           calls @ [Pool_GetWithTimeout (Timeout (Dialer sc)),
                    SetWriteDeadline c (Timeout (Dialer sc)),
                    WriteTo c (soapEnvelope payload),
                    SetReadDeadline c (Timeout (Dialer sc)),
                    ReadResponse c,
                    Pool_Remove c])"
  by (subst DoRequest_loop.simps) simp

lemma DoRequest_loop_Responded:
  "world i = Responded c resp \<Longrightarrow>
   DoRequest_loop ND DE sc world payload v i calls =
     Some (fst (if StatusCode resp \<noteq> 200
                then (Some (Errorf ''unexpected http response status: %v'' [ArgInt (StatusCode resp)]), v)
                else parseSOAPResponse ND DE (Body resp) v),
           snd (if StatusCode resp \<noteq> 200
                then (Some (Errorf ''unexpected http response status: %v'' [ArgInt (StatusCode resp)]), v)
                else parseSOAPResponse ND DE (Body resp) v),
           calls @ [Pool_GetWithTimeout (Timeout (Dialer sc)),
                    SetWriteDeadline c (Timeout (Dialer sc)),
                    WriteTo c (soapEnvelope payload),
                    SetReadDeadline c (Timeout (Dialer sc)),
                    ReadResponse c,
                    Body_Close c,
                    if Header_Get (Header resp) ''Connection'' = ''keep-alive''
                    then Conn_Close c else Pool_Remove c])"
  by (subst DoRequest_loop.simps) (simp add: Let_def split: prod.split)

lemma DoRequest_loop_retries:
  "\<forall>j < length cs. \<exists>err. world (i + j) = WriteFailed (cs ! j) err \<Longrightarrow>
   DoRequest_loop ND DE sc world payload v i calls =
     DoRequest_loop ND DE sc world payload v (i + length cs)
       (calls @ concat (map (\<lambda>c. [Pool_GetWithTimeout (Timeout (Dialer sc)),
                                    SetWriteDeadline c (Timeout (Dialer sc)),
                                    WriteTo c (soapEnvelope payload),
                                    Pool_Remove c]) cs))"
proof (induction cs arbitrary: i calls)
  case Nil
  show ?case by simp
next
  case (Cons c cs)
  from Cons.prems have "\<exists>err. world (i + 0) = WriteFailed ((c # cs) ! 0) err"
    by blast
  then obtain err where first: "world i = WriteFailed c err"
    by auto
  have later: "\<forall>j < length cs. \<exists>err. world (Suc i + j) = WriteFailed (cs ! j) err"
  proof (intro allI impI)
    fix j assume "j < length cs"
    then have "Suc j < length (c # cs)" by simp
    with Cons.prems have "\<exists>err. world (i + Suc j) = WriteFailed ((c # cs) ! Suc j) err"
      by blast
    then show "\<exists>err. world (Suc i + j) = WriteFailed (cs ! j) err"
      by simp
  qed
  show ?case
    by (simp add: DoRequest_loop_WriteFailed [where world = world and i = i, OF first]
        Cons.IH [OF later])
qed

lemma DoRequest_loop_returns_only_past_write_failures:
  "DoRequest_loop ND DE sc world payload v i calls = Some y \<Longrightarrow>
   \<exists>j. \<forall>c err. world (i + j) \<noteq> WriteFailed c err"
proof (induction ND DE sc world payload v i calls y
    rule: DoRequest_loop.raw_induct [rotated, consumes 1, case_names step])
  case (step loop ND DE sc world payload v i calls y)
  show ?case
  proof (cases "\<exists>c err. world i = WriteFailed c err")
    case True
    then obtain c err where first: "world i = WriteFailed c err"
      by blast
    with step(2) have "loop ND DE sc world payload v (Suc i)
        (calls @ [Pool_GetWithTimeout (Timeout (Dialer sc)),
                  SetWriteDeadline c (Timeout (Dialer sc)),
                  WriteTo c (soapEnvelope payload),
                  Pool_Remove c]) = Some y"
      by simp
    then obtain j where "\<forall>c err. world (Suc i + j) \<noteq> WriteFailed c err"
      using step(1) by blast
    then have "\<forall>c err. world (i + Suc j) \<noteq> WriteFailed c err"
      by simp
    then show ?thesis ..
  next
    case False
    then have "\<forall>c err. world (i + 0) \<noteq> WriteFailed c err"
      by simp
    then show ?thesis ..
  qed
qed

lemma DoRequest_loop_diverges:
  assumes "\<forall>j. \<exists>c err. world (i + j) = WriteFailed c err"
  shows "DoRequest_loop ND DE sc world payload v i calls = None"
proof (cases "DoRequest_loop ND DE sc world payload v i calls")
  case None
  then show ?thesis .
next
  case (Some y)
  from DoRequest_loop_returns_only_past_write_failures [OF Some]
  obtain j where "\<forall>c err. world (i + j) \<noteq> WriteFailed c err" ..
  with assms show ?thesis
    by blast
qed


text \<open>
  C6: when writing the envelope to the connection of a turn fails, that connection is
  removed from the pool and the next turn starts at once with a new acquisition: nothing
  is called in between, and nothing counts the turns. So after any number of failed
  writes in a row (on the connections \<open>cs\<close>) the loop stands at the next turn with one
  removal per failure; it ends with "failed to open unix socket" as soon as the pool
  gives no connection; and when every write fails for ever the call never returns.
\<close>

theorem DoRequest_retries_on_write_failure:
  "((\<forall>j < length cs. \<exists>err. world (i + j) = WriteFailed (cs ! j) err) \<longrightarrow>
      DoRequest_loop ND DE sc world payload v i calls =
        DoRequest_loop ND DE sc world payload v (i + length cs)
          (calls @ concat (map (\<lambda>c. [Pool_GetWithTimeout (Timeout (Dialer sc)),
                                       SetWriteDeadline c (Timeout (Dialer sc)),
                                       WriteTo c (soapEnvelope payload),
                                       Pool_Remove c]) cs))) \<and>
   ((\<forall>j < length cs. \<exists>err. world (i + j) = WriteFailed (cs ! j) err) \<and>
    world (i + length cs) = GetFailed e \<longrightarrow>
      DoRequest_loop ND DE sc world payload v i calls =
        Some (Some (Errorf ''failed to open unix socket: %v'' [ArgError e]), v,
          calls @ concat (map (\<lambda>c. [Pool_GetWithTimeout (Timeout (Dialer sc)),
                                      SetWriteDeadline c (Timeout (Dialer sc)),
                                      WriteTo c (soapEnvelope payload),
                                      Pool_Remove c]) cs) @
          [Pool_GetWithTimeout (Timeout (Dialer sc))])) \<and>
   ((\<forall>j. \<exists>c err. world (i + j) = WriteFailed c err) \<longrightarrow>
      DoRequest_loop ND DE sc world payload v i calls = None)"
proof (intro conjI impI)
  assume "\<forall>j < length cs. \<exists>err. world (i + j) = WriteFailed (cs ! j) err"
  then show "DoRequest_loop ND DE sc world payload v i calls =
        DoRequest_loop ND DE sc world payload v (i + length cs)
          (calls @ concat (map (\<lambda>c. [Pool_GetWithTimeout (Timeout (Dialer sc)),
                                       SetWriteDeadline c (Timeout (Dialer sc)),
                                       WriteTo c (soapEnvelope payload),
                                       Pool_Remove c]) cs))"
    by (rule DoRequest_loop_retries)
next
  assume a: "(\<forall>j < length cs. \<exists>err. world (i + j) = WriteFailed (cs ! j) err) \<and>
    world (i + length cs) = GetFailed e"
  then have "DoRequest_loop ND DE sc world payload v i calls =
        DoRequest_loop ND DE sc world payload v (i + length cs)
          (calls @ concat (map (\<lambda>c. [Pool_GetWithTimeout (Timeout (Dialer sc)),
                                       SetWriteDeadline c (Timeout (Dialer sc)),
                                       WriteTo c (soapEnvelope payload),
                                       Pool_Remove c]) cs))"
    by (intro DoRequest_loop_retries) simp
  also from a have "\<dots> = Some (Some (Errorf ''failed to open unix socket: %v'' [ArgError e]), v,
          (calls @ concat (map (\<lambda>c. [Pool_GetWithTimeout (Timeout (Dialer sc)),
                                      SetWriteDeadline c (Timeout (Dialer sc)),
                                      WriteTo c (soapEnvelope payload),
                                      Pool_Remove c]) cs)) @
          [Pool_GetWithTimeout (Timeout (Dialer sc))])"
    by (intro DoRequest_loop_GetFailed) simp
  finally show "DoRequest_loop ND DE sc world payload v i calls =
        Some (Some (Errorf ''failed to open unix socket: %v'' [ArgError e]), v,
          calls @ concat (map (\<lambda>c. [Pool_GetWithTimeout (Timeout (Dialer sc)),
                                      SetWriteDeadline c (Timeout (Dialer sc)),
                                      WriteTo c (soapEnvelope payload),
                                      Pool_Remove c]) cs) @
          [Pool_GetWithTimeout (Timeout (Dialer sc))])"
    by simp
next
  assume "\<forall>j. \<exists>c err. world (i + j) = WriteFailed c err"
  then show "DoRequest_loop ND DE sc world payload v i calls = None"
    by (rule DoRequest_loop_diverges)
qed


theorem DoRequest_retries_on_write_failure_witness:
  "DoRequest (\<lambda>data. Decoder [] EOF) (\<lambda>d v n a. (None, v)) sample_client
     (\<lambda>i. if i < 2 then WriteFailed i (External ''write: broken pipe'')
          else (GetFailed (External ''Get Connection timeout.'') :: (nat, string) attempt))
     ''<ns:logon/>'' ''dest'' =
     Some (Some (Errorf ''failed to open unix socket: %v''
                   [ArgError (External ''Get Connection timeout.'')]), ''dest'',
       [Pool_GetWithTimeout 30000000000, SetWriteDeadline 0 30000000000,
        WriteTo 0 (soapEnvelope ''<ns:logon/>''), Pool_Remove 0,
        Pool_GetWithTimeout 30000000000, SetWriteDeadline (Suc 0) 30000000000,
        WriteTo (Suc 0) (soapEnvelope ''<ns:logon/>''), Pool_Remove (Suc 0),
        Pool_GetWithTimeout 30000000000]) \<and>
   DoRequest (\<lambda>data. Decoder [] EOF) (\<lambda>d v n a. (None, v)) sample_client
     (\<lambda>i. WriteFailed i (External ''write: broken pipe'') :: (nat, string) attempt)
     ''<ns:logon/>'' ''dest'' = None"
proof
  let ?world = "\<lambda>i. if i < 2 then WriteFailed i (External ''write: broken pipe'')
      else (GetFailed (External ''Get Connection timeout.'') :: (nat, string) attempt)"
  have fails: "\<forall>j < length [0, Suc 0]. \<exists>err. ?world (0 + j) = WriteFailed ([0, Suc 0] ! j) err"
    by (simp add: less_Suc_eq)
  have stops: "?world (0 + length [0, Suc 0]) = GetFailed (External ''Get Connection timeout.'')"
    by simp
  from DoRequest_retries_on_write_failure
    [where cs = "[0, Suc 0]" and world = ?world and i = 0
      and e = "External ''Get Connection timeout.''" and ND = "\<lambda>data. Decoder [] EOF"
      and DE = "\<lambda>d v n a. (None, v)" and sc = sample_client and payload = "''<ns:logon/>''"
      and v = "''dest''" and calls = "[]"]
  have "DoRequest_loop (\<lambda>data. Decoder [] EOF) (\<lambda>d v n a. (None, v)) sample_client ?world
      ''<ns:logon/>'' ''dest'' 0 [] =
    Some (Some (Errorf ''failed to open unix socket: %v''
                  [ArgError (External ''Get Connection timeout.'')]), ''dest'',
      [] @ concat (map (\<lambda>c. [Pool_GetWithTimeout (Timeout (Dialer sample_client)),
                               SetWriteDeadline c (Timeout (Dialer sample_client)),
                               WriteTo c (soapEnvelope ''<ns:logon/>''),
                               Pool_Remove c]) [0, Suc 0]) @
      [Pool_GetWithTimeout (Timeout (Dialer sample_client))])"
    using fails stops by blast
  then show "DoRequest (\<lambda>data. Decoder [] EOF) (\<lambda>d v n a. (None, v)) sample_client ?world
     ''<ns:logon/>'' ''dest'' =
     Some (Some (Errorf ''failed to open unix socket: %v''
                   [ArgError (External ''Get Connection timeout.'')]), ''dest'',
       [Pool_GetWithTimeout 30000000000, SetWriteDeadline 0 30000000000,
        WriteTo 0 (soapEnvelope ''<ns:logon/>''), Pool_Remove 0,
        Pool_GetWithTimeout 30000000000, SetWriteDeadline (Suc 0) 30000000000,
        WriteTo (Suc 0) (soapEnvelope ''<ns:logon/>''), Pool_Remove (Suc 0),
        Pool_GetWithTimeout 30000000000])"
    by (simp add: DoRequest_def sample_client_def)
next
  let ?world = "\<lambda>i. WriteFailed i (External ''write: broken pipe'') :: (nat, string) attempt"
  have always: "\<forall>j. \<exists>c err. ?world (0 + j) = WriteFailed c err"
    by simp
  from DoRequest_retries_on_write_failure
    [where cs = "[]" and world = ?world and i = 0
      and e = "External ''Get Connection timeout.''" and ND = "\<lambda>data. Decoder [] EOF"
      and DE = "\<lambda>d v n a. (None, v)" and sc = sample_client and payload = "''<ns:logon/>''"
      and v = "''dest''" and calls = "[]"]
  have "DoRequest_loop (\<lambda>data. Decoder [] EOF) (\<lambda>d v n a. (None, v)) sample_client ?world
      ''<ns:logon/>'' ''dest'' 0 [] = None"
    using always by blast
  then show "DoRequest (\<lambda>data. Decoder [] EOF) (\<lambda>d v n a. (None, v)) sample_client ?world
     ''<ns:logon/>'' ''dest'' = None"
    by (simp add: DoRequest_def)
qed

text \<open>
  C7: when the write succeeds and reading the response fails, the connection is removed
  from the pool and \<open>DoRequest\<close> returns "failed to read from unix socket" at once, the
  destination untouched: the call returns in this very turn, whatever the pool and the
  socket would do in a later one, and its last call is the removal.
\<close>

theorem DoRequest_read_failure_is_final:
  "world i = ReadFailed c err \<Longrightarrow>
   DoRequest_loop ND DE sc world payload v i calls =
     Some (Some (Errorf ''failed to read from unix socket: %v'' [ArgError err]), v,
           calls @ [Pool_GetWithTimeout (Timeout (Dialer sc)),
                    SetWriteDeadline c (Timeout (Dialer sc)),
                    WriteTo c (soapEnvelope payload),
                    SetReadDeadline c (Timeout (Dialer sc)),
                    ReadResponse c,
                    Pool_Remove c])"
  by (rule DoRequest_loop_ReadFailed)

theorem DoRequest_read_failure_is_final_witness:
  "DoRequest (\<lambda>data. Decoder [] EOF) (\<lambda>d v n a. (None, v)) sample_client
     (\<lambda>i. if i = 0 then ReadFailed (7 :: nat) (External ''unexpected EOF'')
          else Responded 8 \<lparr>StatusCode = 200, Header = Map.empty, Body = ''<x/>''\<rparr>)
     ''<ns:logon/>'' ''dest'' =
     Some (Some (Errorf ''failed to read from unix socket: %v''
                   [ArgError (External ''unexpected EOF'')]), ''dest'',
       [Pool_GetWithTimeout 30000000000, SetWriteDeadline 7 30000000000,
        WriteTo 7 (soapEnvelope ''<ns:logon/>''), SetReadDeadline 7 30000000000,
        ReadResponse 7, Pool_Remove 7])"
proof -
  let ?world = "\<lambda>i. if i = 0 then ReadFailed (7 :: nat) (External ''unexpected EOF'')
      else Responded 8 \<lparr>StatusCode = 200, Header = Map.empty, Body = ''<x/>''\<rparr>"
  have "?world 0 = ReadFailed 7 (External ''unexpected EOF'')"
    by simp
  from DoRequest_read_failure_is_final
    [where world = ?world and i = 0 and ND = "\<lambda>data. Decoder [] EOF"
      and DE = "\<lambda>d v n a. (None, v)" and sc = sample_client and payload = "''<ns:logon/>''"
      and v = "''dest''" and calls = "[]", OF this]
  show ?thesis
    by (simp add: DoRequest_def sample_client_def)
qed

text \<open>
  C8: when a response is read, the call returns in this turn, and the last two calls it
  makes are the close of the response body and then, according to the header
  \<open>Connection\<close>, the close of the connection (which hands it back to the pool) when the
  value is exactly \<open>keep-alive\<close>, and its removal from the pool for every other value and
  when the header is absent. This holds on both ways out: with a status other than 200
  the status error is returned and the destination is left alone, with status 200 the
  result of \<open>parseSOAPResponse\<close> on the body is returned.
\<close>

theorem DoRequest_deferred_cleanup:
  "world i = Responded c resp \<Longrightarrow>
   \<exists>err v'.
     DoRequest_loop ND DE sc world payload v i calls =
       Some (err, v',
             calls @ [Pool_GetWithTimeout (Timeout (Dialer sc)),
                      SetWriteDeadline c (Timeout (Dialer sc)),
                      WriteTo c (soapEnvelope payload),
                      SetReadDeadline c (Timeout (Dialer sc)),
                      ReadResponse c,
                      Body_Close c,
                      if Header_Get (Header resp) ''Connection'' = ''keep-alive''
                      then Conn_Close c else Pool_Remove c]) \<and>
     (err, v') =
       (if StatusCode resp \<noteq> 200
        then (Some (Errorf ''unexpected http response status: %v'' [ArgInt (StatusCode resp)]), v)
        else parseSOAPResponse ND DE (Body resp) v)"
  by (simp add: DoRequest_loop_Responded [where world = world and i = i])

theorem DoRequest_deferred_cleanup_witness:
  "DoRequest (\<lambda>data. Decoder [] EOF) (\<lambda>d v n a. (None, v)) sample_client
     (\<lambda>i. Responded (7 :: nat)
        \<lparr>StatusCode = 500, Header = [''Connection'' \<mapsto> [''keep-alive'']], Body = ''<x/>''\<rparr>)
     ''<ns:logon/>'' ''dest'' =
     Some (Some (Errorf ''unexpected http response status: %v'' [ArgInt 500]), ''dest'',
       [Pool_GetWithTimeout 30000000000, SetWriteDeadline 7 30000000000,
        WriteTo 7 (soapEnvelope ''<ns:logon/>''), SetReadDeadline 7 30000000000,
        ReadResponse 7, Body_Close 7, Conn_Close 7]) \<and>
   DoRequest (\<lambda>data. Decoder [] EOF) (\<lambda>d v n a. (None, v)) sample_client
     (\<lambda>i. Responded (7 :: nat)
        \<lparr>StatusCode = 200, Header = [''Connection'' \<mapsto> [''close'']], Body = ''<x/>''\<rparr>)
     ''<ns:logon/>'' ''dest'' =
     Some (Some (Errorf ''failed to unmarshal SOAP response body'' []), ''dest'',
       [Pool_GetWithTimeout 30000000000, SetWriteDeadline 7 30000000000,
        WriteTo 7 (soapEnvelope ''<ns:logon/>''), SetReadDeadline 7 30000000000,
        ReadResponse 7, Body_Close 7, Pool_Remove 7]) \<and>
   DoRequest (\<lambda>data. Decoder [] EOF) (\<lambda>d v n a. (None, v)) sample_client
     (\<lambda>i. Responded (7 :: nat) \<lparr>StatusCode = 200, Header = Map.empty, Body = ''<x/>''\<rparr>)
     ''<ns:logon/>'' ''dest'' =
     Some (Some (Errorf ''failed to unmarshal SOAP response body'' []), ''dest'',
       [Pool_GetWithTimeout 30000000000, SetWriteDeadline 7 30000000000,
        WriteTo 7 (soapEnvelope ''<ns:logon/>''), SetReadDeadline 7 30000000000,
        ReadResponse 7, Body_Close 7, Pool_Remove 7])"
  using
    DoRequest_deferred_cleanup [where world = "\<lambda>i. Responded (7 :: nat)
        \<lparr>StatusCode = 500, Header = [''Connection'' \<mapsto> [''keep-alive'']], Body = ''<x/>''\<rparr>" and i = 0
        and ND = "\<lambda>data. Decoder [] EOF" and DE = "\<lambda>d v n a. (None, v)" and sc = sample_client
        and payload = "''<ns:logon/>''" and v = "''dest''" and calls = "[]", OF refl]
    DoRequest_deferred_cleanup [where world = "\<lambda>i. Responded (7 :: nat)
        \<lparr>StatusCode = 200, Header = [''Connection'' \<mapsto> [''close'']], Body = ''<x/>''\<rparr>" and i = 0
        and ND = "\<lambda>data. Decoder [] EOF" and DE = "\<lambda>d v n a. (None, v)" and sc = sample_client
        and payload = "''<ns:logon/>''" and v = "''dest''" and calls = "[]", OF refl]
    DoRequest_deferred_cleanup [where world = "\<lambda>i. Responded (7 :: nat)
        \<lparr>StatusCode = 200, Header = Map.empty, Body = ''<x/>''\<rparr>" and i = 0
        and ND = "\<lambda>data. Decoder [] EOF" and DE = "\<lambda>d v n a. (None, v)" and sc = sample_client
        and payload = "''<ns:logon/>''" and v = "''dest''" and calls = "[]", OF refl]
  by (auto simp add: DoRequest_def sample_client_def Header_Get_def parseSOAPResponse_def
      parseLoop_Nil)

section \<open>Properties of the connection pool\<close>

text \<open>A call keeps the capacity, and keeps the pool within it.\<close>

lemma pool_step_bound:
  assumes "length (idle p) + length (acquired p) \<le> capacity p"
  shows "length (idle (pool_step p x)) + length (acquired (pool_step p x)) \<le> capacity (pool_step p x) \<and>
         capacity (pool_step p x) = capacity p"
proof (cases x)
  case (Acquire task dial)
  with assms show ?thesis
    by (auto simp add: pool_acquire_def split: list.splits option.splits)
next
  case (Release task c)
  show ?thesis
  proof (cases "(c, task) \<in> set (acquired p)")
    case True
    then have "length (remove1 (c, task) (acquired p)) = length (acquired p) - 1"
      by (simp add: length_remove1)
    moreover from True have "1 \<le> length (acquired p)"
      by (cases "acquired p") auto
    ultimately have "Suc (length (remove1 (c, task) (acquired p))) = length (acquired p)"
      by arith
    with assms True Release show ?thesis
      by (simp add: pool_release_def)
  next
    case False
    with assms Release show ?thesis
      by (simp add: pool_release_def)
  qed
next
  case (Remove task c)
  have "length (remove1 (c, task) (acquired p)) \<le> length (acquired p)"
    by (simp add: length_remove1)
  with assms Remove show ?thesis
    by (simp add: pool_remove_def)
qed

lemma pool_run_bound:
  "length (idle p) + length (acquired p) \<le> capacity p \<Longrightarrow>
   length (idle (foldl pool_step p xs)) + length (acquired (foldl pool_step p xs))
     \<le> capacity (foldl pool_step p xs) \<and>
   capacity (foldl pool_step p xs) = capacity p"
proof (induction xs arbitrary: p)
  case Nil
  then show ?case by simp
next
  case (Cons x xs)
  from pool_step_bound [OF Cons.prems, of x] Cons.IH [of "pool_step p x"]
  show ?case by simp
qed

text \<open>
  C9: in a pool of capacity \<open>N\<close>, after any interleaving of acquire, release and remove
  calls of any tasks, the acquired connections and the idle ones together are at most
  \<open>N\<close>; and when \<open>N\<close> connections are acquired, a further acquire gets no connection
  and leaves the pool as it is (the task waits or times out), whatever the dial function
  would give.
\<close>

theorem pool_capacity_never_exceeded:
  "length (idle (foldl pool_step (pool_new N) calls)) +
     length (acquired (foldl pool_step (pool_new N) calls)) \<le> N \<and>
   (length (acquired (foldl pool_step (pool_new N) calls)) = N \<longrightarrow>
      pool_acquire (foldl pool_step (pool_new N) calls) task dial =
        (None, foldl pool_step (pool_new N) calls))"
proof -
  let ?p = "foldl pool_step (pool_new N) calls"
  have "length (idle (pool_new N)) + length (acquired (pool_new N)) \<le> capacity (pool_new N)"
    by (simp add: pool_new_def)
  from pool_run_bound [OF this, of calls]
  have bound: "length (idle ?p) + length (acquired ?p) \<le> N" and cap: "capacity ?p = N"
    by (simp_all add: pool_new_def)
  have "pool_acquire ?p task dial = (None, ?p)" if "length (acquired ?p) = N"
  proof -
    from bound that have "idle ?p = []" by simp
    with that cap show ?thesis by (simp add: pool_acquire_def)
  qed
  with bound show ?thesis by blast
qed

theorem pool_capacity_never_exceeded_witness:
  "foldl pool_step (pool_new 2)
     [Acquire 1 (Some 10), Acquire 2 (Some 11), Acquire 3 (Some 12), Release 1 10,
      Acquire 3 (Some 12), Remove 2 11, Acquire 4 (Some 13)] =
     \<lparr>capacity = 2, idle = [], acquired = [(13, 4), (10, 3)]\<rparr> \<and>
   pool_acquire
     (foldl pool_step (pool_new 2)
        [Acquire 1 (Some 10), Acquire 2 (Some 11), Acquire 3 (Some 12), Release 1 10,
         Acquire 3 (Some 12), Remove 2 11, Acquire 4 (Some 13)]) 5 (Some 14) =
     (None, \<lparr>capacity = 2, idle = [], acquired = [(13, 4), (10, 3)]\<rparr>)"
proof -
  let ?calls = "[Acquire 1 (Some 10), Acquire 2 (Some 11), Acquire 3 (Some 12), Release 1 10,
      Acquire 3 (Some 12), Remove 2 11, Acquire 4 (Some 13)]"
  have run: "foldl pool_step (pool_new 2) ?calls =
      \<lparr>capacity = 2, idle = [], acquired = [(13, 4), (10, 3)]\<rparr>"
    by (simp add: pool_new_def pool_acquire_def pool_release_def pool_remove_def)
  from pool_capacity_never_exceeded [of 2 ?calls 5 "Some 14"] run
  show ?thesis
    by simp
qed

end
